theory Spec2Isabelle
  imports Complex_Main "HOL-Library.Word"
begin

section \<open>Images\<close>

text \<open>
  The script works on numpy arrays of dtype uint8 as OpenCV decodes them: a grayscale
  image is a two-dimensional array (rows of samples), any other decoded image carries a
  third axis with the channels of each pixel. Rows are listed top to bottom, samples left
  to right, so the sample at column \<open>x\<close> of row \<open>y\<close> is \<open>g ! y ! x\<close>.
\<close>

type_synonym pixel = "8 word"

type_synonym gray = "pixel list list"

datatype image = Gray gray | Colour "pixel list list list"

text \<open>\<open>img.shape\<close> of a two-dimensional array: (rows, columns).\<close>

definition shape :: "'a list list \<Rightarrow> nat \<times> nat" where
  "shape g = (length g, (case g of [] \<Rightarrow> 0 | row # _ \<Rightarrow> length row))"

text \<open>Every row of an array has the same number of columns.\<close>

definition rectangular :: "'a list list \<Rightarrow> bool" where
  "rectangular g = list_all (\<lambda>row. length row = snd (shape g)) g"

text \<open>
  The exceptions the script can end with; it defines and raises none of its own. The last
  three are the error kinds that the specification names; no definition below returns
  them.
\<close>

datatype error =
    IndexError      \<comment> \<open>Python: sequence index out of range\<close>
  | ValueError      \<comment> \<open>Python: unpacking or shape mismatch\<close>
  | AttributeError  \<comment> \<open>Python: attribute of \<open>None\<close>\<close>
  | ZeroDivisionError
  | CvError         \<comment> \<open>\<open>cv2.error\<close>: an assertion inside an OpenCV call\<close>
  | NoCircleDetectedError
  | DegenerateBoundingBoxError
  | InvalidFormatError

section \<open>Tuning parameters\<close>

definition STD_RES :: nat where
  "STD_RES = 512"

definition THRESH :: int where
  "THRESH = 30"

section \<open>Thresholder\<close>

text \<open>
  \<open>cv.threshold(src, thresh, maxval, cv.THRESH_BINARY)\<close> on 8-bit data, as OpenCV
  documents it: \<open>dst(x, y) = maxval if src(x, y) > thresh else 0\<close>, sample by sample and
  channel by channel, with \<open>maxval\<close> saturated to the range of a byte. The result is a new
  array; the source array is not written.
\<close>

definition saturate_u8 :: "int \<Rightarrow> pixel" where
  "saturate_u8 v = word_of_int (max 0 (min 255 v))"

definition thresh_binary :: "int \<Rightarrow> int \<Rightarrow> pixel \<Rightarrow> pixel" where
  "thresh_binary thresh maxval p = (if uint p > thresh then saturate_u8 maxval else 0)"

fun cv_threshold_binary :: "image \<Rightarrow> int \<Rightarrow> int \<Rightarrow> image" where
  "cv_threshold_binary (Gray g) thresh maxval =
     Gray (map (map (thresh_binary thresh maxval)) g)"
| "cv_threshold_binary (Colour c) thresh maxval =
     Colour (map (map (map (thresh_binary thresh maxval))) c)"

text \<open>\<open>threshold(img)\<close>: the second component of the pair OpenCV returns.\<close>

definition threshold :: "image \<Rightarrow> image" where
  "threshold img = cv_threshold_binary img THRESH 255"

section \<open>The world outside the script\<close>

text \<open>
  What the script takes from its environment is a parameter of the model: the file
  system behind \<open>cv.imread\<close>, and the OpenCV algorithms whose results the script only
  passes on. The type \<open>'c\<close> is the type of a circle coordinate (a \<open>float32\<close>), on which
  the script computes nothing.
  \<^item> \<open>imread path gs\<close>: the decoded file (\<open>gs\<close> for \<open>cv.IMREAD_GRAYSCALE\<close>, otherwise
    flag \<open>-1\<close>), or \<open>None\<close> when it cannot be decoded;
  \<^item> \<open>equalizeHist\<close>: histogram equalisation of single-channel 8-bit data;
  \<^item> \<open>inter_area img w h\<close>: the \<open>cv.INTER_AREA\<close> resampling of a non-empty image to
    \<open>w\<close> columns and \<open>h\<close> rows;
  \<^item> \<open>fdiv\<close>, \<open>fmul\<close>: division and multiplication of double-precision floats;
  \<^item> \<open>HoughCircles\<close>: \<open>cv.HoughCircles(img, cv.HOUGH_GRADIENT, DP, MD, param1=P1,
    param2=P2, minRadius=MIN_R, maxRadius=MAX_R)\<close> under the current tuning parameters:
    \<open>None\<close>, or an array of shape (1, N, 3);
  \<^item> \<open>cv_circle img centre radius colour thickness\<close>: the image after \<open>cv.circle\<close>,
    or the exception it raises (the binding rejects a centre or a radius that it cannot
    take as integers, as newer versions do for the \<open>float32\<close> values of a detected
    circle);
  \<^item> \<open>notch_rest\<close>: lines 308 to 355 of \<open>experiment_notch_detection\<close> (painting,
    morphology, blob detection and the windows), which no property below looks into.
\<close>

type_synonym 'c circle = "'c \<times> 'c \<times> 'c"

type_synonym ref = nat

record heap =
  cells :: "ref \<Rightarrow> image"
  next_ref :: ref

record 'c world =
  imread :: "string \<Rightarrow> bool \<Rightarrow> image option"
  equalizeHist :: "gray \<Rightarrow> gray"
  inter_area :: "image \<Rightarrow> nat \<Rightarrow> nat \<Rightarrow> image"
  fdiv :: "real \<Rightarrow> real \<Rightarrow> real"
  fmul :: "real \<Rightarrow> real \<Rightarrow> real"
  HoughCircles :: "gray \<Rightarrow> 'c list list list option"
  cv_circle :: "pixel list list list \<Rightarrow> 'c \<times> 'c \<Rightarrow> 'c \<Rightarrow> pixel list \<Rightarrow> int
                  \<Rightarrow> error + pixel list list list"
  notch_rest :: "heap \<Rightarrow> ref \<Rightarrow> ref \<Rightarrow> 'c circle \<Rightarrow> (error + unit) \<times> heap"

text \<open>
  Arrays are objects: a variable holds a reference, and \<open>cells\<close> gives the array behind
  each reference. A new array takes the next unused reference.
\<close>

definition alloc :: "heap \<Rightarrow> image \<Rightarrow> ref \<times> heap" where
  "alloc hp img =
     (next_ref hp, hp\<lparr>cells := (cells hp)(next_ref hp := img), next_ref := Suc (next_ref hp)\<rparr>)"

section \<open>Circle detector\<close>

text \<open>
  \<open>cv.rectangle(img, pt1, pt2, colour, thickness=cv.FILLED)\<close> on a single-channel image:
  \<open>pt1\<close> and \<open>pt2\<close> are opposite corners, given as (x, y), in either order; OpenCV fills
  the rectangle with both corners included and clips it to the image. It writes into
  \<open>img\<close>; the function gives the array's new contents.
\<close>

definition in_rect :: "int \<times> int \<Rightarrow> int \<times> int \<Rightarrow> int \<Rightarrow> int \<Rightarrow> bool" where
  "in_rect pt1 pt2 x y =
     (min (fst pt1) (fst pt2) \<le> x \<and> x \<le> max (fst pt1) (fst pt2)
      \<and> min (snd pt1) (snd pt2) \<le> y \<and> y \<le> max (snd pt1) (snd pt2))"

definition cv_rectangle_filled :: "gray \<Rightarrow> int \<times> int \<Rightarrow> int \<times> int \<Rightarrow> pixel \<Rightarrow> gray" where
  "cv_rectangle_filled g pt1 pt2 colour =
     map (\<lambda>(y, row).
            map (\<lambda>(x, p). if in_rect pt1 pt2 (int x) (int y) then colour else p)
              (enumerate 0 row))
       (enumerate 0 g)"

text \<open>
  Lines 128 to 139 of \<open>hough_circles\<close> (the same two calls are lines 312 to 317 of
  \<open>experiment_notch_detection\<close>). \<open>int(h / 2)\<close> of a size is \<open>h div 2\<close>.
\<close>

definition mask_quadrants :: "gray \<Rightarrow> gray" where
  "mask_quadrants g =
     (let (h, w) = shape g;
          half_h = h div 2;
          half_w = w div 2;
          g1 = cv_rectangle_filled g (0, 0) (int half_w, int h) 0
      in cv_rectangle_filled g1 (0, int h) (int w, int half_h) 0)"

text \<open>
  The loop of lines 149 and 150: each row \<open>c\<close> of the N by 3 array becomes the tuple
  \<open>(c[0], c[1], c[2])\<close>, appended to \<open>output\<close>.
\<close>

fun circle_tuples :: "'c list list \<Rightarrow> 'c circle list \<Rightarrow> error + 'c circle list" where
  "circle_tuples [] output = Inr output"
| "circle_tuples (c # cs) output =
     (if length c < 3 then Inl IndexError
      else circle_tuples cs (output @ [(c ! 0, c ! 1, c ! 2)]))"

text \<open>
  \<open>hough_circles\<close> on the contents of the array it is given: the result, and the contents
  of that array when the function ends. Unpacking the shape of an array with a channel
  axis into \<open>h, w\<close> raises \<open>ValueError\<close>.
\<close>

definition hough_circles_on ::
    "('c, 'z) world_scheme \<Rightarrow> image \<Rightarrow> (error + 'c circle list) \<times> image" where
  "hough_circles_on W img =
     (case img of
        Colour c \<Rightarrow> (Inl ValueError, img)
      | Gray g \<Rightarrow>
          (let masked = mask_quadrants g in
           (case HoughCircles W masked of
              None \<Rightarrow> (Inr [], Gray masked)
            | Some circles \<Rightarrow>
                (case circles of
                   [] \<Rightarrow> (Inl IndexError, Gray masked)
                 | circles0 # _ \<Rightarrow> (circle_tuples circles0 [], Gray masked)))))"

text \<open>\<open>hough_circles(img)\<close>: the caller's array is the one that is written.\<close>

definition hough_circles ::
    "('c, 'z) world_scheme \<Rightarrow> heap \<Rightarrow> ref \<Rightarrow> (error + 'c circle list) \<times> heap" where
  "hough_circles W hp img =
     (let (output, contents) = hough_circles_on W (cells hp img)
      in (output, hp\<lparr>cells := (cells hp)(img := contents)\<rparr>))"

section \<open>Loader\<close>

definition img_rows :: "image \<Rightarrow> nat" where
  "img_rows img = (case img of Gray g \<Rightarrow> fst (shape g) | Colour c \<Rightarrow> fst (shape c))"

definition img_cols :: "image \<Rightarrow> nat" where
  "img_cols img = (case img of Gray g \<Rightarrow> snd (shape g) | Colour c \<Rightarrow> snd (shape c))"

text \<open>
  \<open>cv.equalizeHist(src, dst)\<close> asserts that the source is single-channel 8-bit data and
  returns at once on an empty source, which is what the binding makes of \<open>None\<close>.
\<close>

definition cv_equalizeHist :: "('c, 'z) world_scheme \<Rightarrow> image option \<Rightarrow> error + image option" where
  "cv_equalizeHist W src =
     (case src of
        None \<Rightarrow> Inr None
      | Some (Gray g) \<Rightarrow> Inr (Some (Gray (equalizeHist W g)))
      | Some (Colour c) \<Rightarrow> Inl CvError)"

text \<open>OpenCV rounds a double to the nearest integer, a tie to the even one.\<close>

definition cvRound :: "real \<Rightarrow> int" where
  "cvRound v =
     (let f = \<lfloor>v\<rfloor>; d = v - of_int f
      in if d < 1 / 2 then f else if 1 / 2 < d then f + 1 else if even f then f else f + 1)"

text \<open>
  The unit roundoff of a double: one rounded operation on floats in the normal range
  differs from the exact result by at most this fraction of it.
\<close>

definition float_eps :: real where
  "float_eps = 1 / 2 ^ 53"

text \<open>
  \<open>cv.resize(src, dsize, interpolation=cv.INTER_AREA)\<close> with \<open>dsize = (w, h)\<close>: OpenCV
  asserts that neither the source nor the destination size is empty.
\<close>

definition cv_resize_to :: "('c, 'z) world_scheme \<Rightarrow> image \<Rightarrow> int \<Rightarrow> int \<Rightarrow> error + image" where
  "cv_resize_to W src w h =
     (if img_rows src = 0 \<or> img_cols src = 0 then Inl CvError
      else if w \<le> 0 \<or> h \<le> 0 then Inl CvError
      else Inr (inter_area W src (nat w) (nat h)))"

text \<open>
  \<open>cv.resize(src, None, fx=fx, fy=fy, interpolation=cv.INTER_AREA)\<close>: the destination
  size is \<open>(round(cols * fx), round(rows * fy))\<close>, computed in doubles; image sizes are far
  below the range of the integers it is stored in.
\<close>

definition cv_resize_by :: "('c, 'z) world_scheme \<Rightarrow> image \<Rightarrow> real \<Rightarrow> real \<Rightarrow> error + image" where
  "cv_resize_by W src fx fy =
     (if img_rows src = 0 \<or> img_cols src = 0 then Inl CvError
      else if fx \<le> 0 \<or> fy \<le> 0 then Inl CvError
      else cv_resize_to W src (cvRound (fmul W (real (img_cols src)) fx))
             (cvRound (fmul W (real (img_rows src)) fy)))"

text \<open>
  \<open>load_image(path, grayscale, equalize, resize)\<close>. The result is \<open>None\<close> when the file
  cannot be decoded and nothing is done to it.
\<close>

definition load_image ::
    "('c, 'z) world_scheme \<Rightarrow> string \<Rightarrow> bool \<Rightarrow> bool \<Rightarrow> bool \<Rightarrow> error + image option" where
  "load_image W path grayscale equalize resize =
     (case (if equalize then cv_equalizeHist W (imread W path grayscale)
            else Inr (imread W path grayscale)) of
        Inl e \<Rightarrow> Inl e
      | Inr img_in \<Rightarrow>
          if resize then
            (case img_in of
               None \<Rightarrow> Inl AttributeError
             | Some img \<Rightarrow>
                 if img_rows img = 0 then Inl ZeroDivisionError
                 else
                   (let ratio = fdiv W (real STD_RES) (real (img_rows img)) in
                    case cv_resize_by W img ratio ratio of
                      Inl e \<Rightarrow> Inl e
                    | Inr out \<Rightarrow> Inr (Some out)))
          else Inr img_in)"

section \<open>Notch detector\<close>

text \<open>
  \<open>experiment_notch_detection(path)\<close> up to line 307, where the first circle is taken
  from the list; the rest of the function is \<open>notch_rest\<close>. With \<open>resize\<close> set the
  loader never returns \<open>None\<close> (\<open>load_image_resize_not_None\<close> below), so the second
  branch is never taken.
\<close>

definition experiment_notch_detection ::
    "('c, 'z) world_scheme \<Rightarrow> heap \<Rightarrow> string \<Rightarrow> (error + unit) \<times> heap" where
  "experiment_notch_detection W hp path =
     (case load_image W path True False True of
        Inl e \<Rightarrow> (Inl e, hp)
      | Inr None \<Rightarrow> (Inl CvError, hp)
      | Inr (Some loaded) \<Rightarrow>
          (let (img, hp1) = alloc hp loaded;
               (img_thresh, hp2) = alloc hp1 (threshold loaded);
               (res, hp3) = hough_circles W hp2 img
           in case res of
                Inl e \<Rightarrow> (Inl e, hp3)
              | Inr circles \<Rightarrow>
                  (case circles of
                     [] \<Rightarrow> (Inl IndexError, hp3)
                   | first # _ \<Rightarrow> notch_rest W hp3 img img_thresh first)))"

section \<open>Bounding-box normalizer\<close>

text \<open>
  \<open>cv.boundingRect\<close> of a single-channel 8-bit image: the smallest upright rectangle
  \<open>(x, y, w, h)\<close> that holds every non-zero sample, \<open>(0, 0, 0, 0)\<close> when there is none.
  OpenCV asserts that the image has one channel.
\<close>

definition nonzero_rows :: "gray \<Rightarrow> nat list" where
  "nonzero_rows g = filter (\<lambda>y. list_ex (\<lambda>p. p \<noteq> 0) (g ! y)) [0..<length g]"

definition nonzero_cols :: "gray \<Rightarrow> nat list" where
  "nonzero_cols g =
     filter (\<lambda>x. list_ex (\<lambda>row. x < length row \<and> row ! x \<noteq> 0) g) [0..<snd (shape g)]"

definition bounding_rect :: "gray \<Rightarrow> nat \<times> nat \<times> nat \<times> nat" where
  "bounding_rect g =
     (let ys = nonzero_rows g; xs = nonzero_cols g
      in if ys = [] \<or> xs = [] then (0, 0, 0, 0)
         else (hd xs, hd ys, last xs - hd xs + 1, last ys - hd ys + 1))"

definition cv_boundingRect :: "image \<Rightarrow> error + nat \<times> nat \<times> nat \<times> nat" where
  "cv_boundingRect img =
     (case img of Gray g \<Rightarrow> Inr (bounding_rect g) | Colour c \<Rightarrow> Inl CvError)"

text \<open>\<open>np.zeros((n, m), dtype=np.uint8)\<close>.\<close>

definition np_zeros :: "nat \<Rightarrow> nat \<Rightarrow> gray" where
  "np_zeros n m = replicate n (replicate m 0)"

text \<open>The view \<open>a[r0:r1, c0:c1]\<close>; a slice is cut off at the end of its axis.\<close>

definition slice2 :: "'a list list \<Rightarrow> nat \<Rightarrow> nat \<Rightarrow> nat \<Rightarrow> nat \<Rightarrow> 'a list list" where
  "slice2 a r0 r1 c0 c1 = map (\<lambda>row. take (c1 - c0) (drop c0 row)) (take (r1 - r0) (drop r0 a))"

text \<open>
  The assignment \<open>dst[r0:r1, c0:c1] = src\<close> for two-dimensional arrays: numpy stretches an
  axis of length one of \<open>src\<close> to the target and raises \<open>ValueError\<close> for any other
  difference of the shapes.
\<close>

definition assign_slice2 :: "gray \<Rightarrow> nat \<Rightarrow> nat \<Rightarrow> nat \<Rightarrow> nat \<Rightarrow> gray \<Rightarrow> error + gray" where
  "assign_slice2 dst r0 r1 c0 c1 src =
     (let (th, tw) = shape (slice2 dst r0 r1 c0 c1);
          (sh, sw) = shape src
      in if (sh = th \<or> sh = 1) \<and> (sw = tw \<or> sw = 1) then
           Inr (map (\<lambda>(i, row).
                       map (\<lambda>(j, p).
                              if r0 \<le> i \<and> i < r0 + th \<and> c0 \<le> j \<and> j < c0 + tw
                              then src ! (if sh = 1 then 0 else i - r0)
                                       ! (if sw = 1 then 0 else j - c0)
                              else p)
                         (enumerate 0 row))
                  (enumerate 0 dst))
         else Inl ValueError)"

text \<open>
  Lines 168 to 182 of \<open>bb_resize\<close>, which are lines 363 to 373 of
  \<open>experiment_bounding_box\<close> as well: the value of \<open>img_expand\<close> after the copy.
  \<open>int(math.floor(d / 2.0))\<close> of a size is \<open>d div 2\<close>. An image with a channel axis does
  not get past \<open>cv.boundingRect\<close>.
\<close>

definition bb_canvas :: "image \<Rightarrow> error + gray" where
  "bb_canvas img =
     (case cv_boundingRect (threshold img) of
        Inl e \<Rightarrow> Inl e
      | Inr (x, y, w, h) \<Rightarrow>
          (case img of
             Colour c \<Rightarrow> Inl ValueError
           | Gray g \<Rightarrow>
               (let max_wh = max w h;
                    img_expand = np_zeros max_wh max_wh;
                    diff_w = max_wh - w;
                    diff_h = max_wh - h;
                    half_dw = diff_w div 2;
                    half_dh = diff_h div 2;
                    roi = slice2 g y (y + h) x (x + w)
                in assign_slice2 img_expand half_dh (half_dh + h) half_dw (half_dw + w) roi)))"

text \<open>
  \<open>bb_resize(img)\<close>: the resized canvas is computed and dropped; the function returns
  \<open>None\<close>.
\<close>

definition bb_resize :: "('c, 'z) world_scheme \<Rightarrow> image \<Rightarrow> error + unit" where
  "bb_resize W img =
     (case bb_canvas img of
        Inl e \<Rightarrow> Inl e
      | Inr img_expand \<Rightarrow>
          (case cv_resize_to W (Gray img_expand) (int STD_RES) (int STD_RES) of
             Inl e \<Rightarrow> Inl e
           | Inr img_resize \<Rightarrow> Inr ()))"

section \<open>Drawing the circles\<close>


text \<open>
  The loop of lines 200 to 202: \<open>cv.circle\<close> draws each circle into \<open>output\<close>. An
  exception ends the loop; the result is the exception, if any, and the contents of
  \<open>output\<close> at the end.
\<close>

fun draw_circles ::
    "('c, 'z) world_scheme \<Rightarrow> pixel list list list \<Rightarrow> 'c circle list
       \<Rightarrow> error option \<times> pixel list list list" where
  "draw_circles W output [] = (None, output)"
| "draw_circles W output (c # cs) =
     (case c of (x, y, r) \<Rightarrow>
        (case cv_circle W output (x, y) r [0, 0, 255] 2 of
           Inl e \<Rightarrow> (Some e, output)
         | Inr output' \<Rightarrow> draw_circles W output' cs))"


section \<open>A small world to run the functions in\<close>

text \<open>
  One file, \<open>eye.jpeg\<close>, decodes to a 4 by 4 grayscale image (or, with the flag \<open>-1\<close>, to a
  1 by 2 image of three channels); floats are exact; resampling takes the nearest sample;
  the Hough transform finds nothing; circles have integer coordinates and \<open>cv.circle\<close>
  paints the centre only. In \<open>strict_world\<close> the circles are not integers for
  \<open>cv.circle\<close>, which rejects them.
\<close>

definition nearest :: "'a list list \<Rightarrow> nat \<Rightarrow> nat \<Rightarrow> 'a list list" where
  "nearest a w h =
     map (\<lambda>i. map (\<lambda>j. a ! (i * fst (shape a) div h) ! (j * snd (shape a) div w)) [0..<w])
       [0..<h]"

definition example_gray :: gray where
  "example_gray = [[9, 9, 9, 9], [9, 9, 9, 9], [9, 9, 9, 9], [9, 9, 9, 9]]"

definition example_world :: "nat world" where
  "example_world =
     \<lparr> imread = (\<lambda>path gs.
          if path = ''eye.jpeg''
          then Some (if gs then Gray example_gray else Colour [[[1, 2, 3], [4, 5, 6]]])
          else None),
       equalizeHist = (\<lambda>g. g),
       inter_area = (\<lambda>img w h. case img of Gray g \<Rightarrow> Gray (nearest g w h)
                                | Colour c \<Rightarrow> Colour (nearest c w h)),
       fdiv = (\<lambda>a b. a / b),
       fmul = (\<lambda>a b. a * b),
       HoughCircles = (\<lambda>g. None),
       cv_circle = (\<lambda>img (x, y) r colour thickness. Inr (img[y := (img ! y)[x := colour]])),
       notch_rest = (\<lambda>hp img img_thresh c. (Inr (), hp)) \<rparr>"

text \<open>An image with a 3 by 2 bounding box, and one with no sample above the cutoff.\<close>

definition example_eye :: gray where
  "example_eye = [[0, 0, 0, 0], [0, 40, 50, 60], [0, 70, 0, 0]]"

definition example_dark :: gray where
  "example_dark = [[0, 0], [0, 30]]"

definition example_heap :: heap where
  "example_heap = \<lparr> cells = (\<lambda>r. Gray example_gray), next_ref = 1 \<rparr>"




section \<open>Properties of the thresholder\<close>

lemma thresh_binary_THRESH:
  "thresh_binary THRESH 255 p = (if 30 < uint p then 255 else 0)"
  by (simp add: thresh_binary_def THRESH_def saturate_u8_def)

lemma thresh_binary_idem:
  "thresh_binary THRESH 255 (thresh_binary THRESH 255 p) = thresh_binary THRESH 255 p"
  by (simp add: thresh_binary_THRESH)

text \<open>
  C2, as the specification states it, fails at the cutoff itself: a sample equal to the
  cutoff 30 is at the cutoff and becomes zero, not 255.
\<close>

theorem threshold_at_cutoff_counterexample:
  "uint (30 :: pixel) \<ge> THRESH \<and> threshold (Gray [[30]]) = Gray [[0]]
     \<and> threshold (Gray [[30]]) \<noteq> Gray [[255]]"
proof -
  have "uint (30 :: pixel) \<ge> THRESH"
    by (simp add: THRESH_def)
  moreover have "threshold (Gray [[30]]) = Gray [[0]]"
    by (simp add: threshold_def thresh_binary_THRESH)
  ultimately show ?thesis by simp
qed

text \<open>
  C2 (amended): for every grayscale image the thresholder returns a grayscale image of
  the same shape in which every sample whose input intensity is strictly above the cutoff
  30 is 255 and every other sample (the cutoff itself included) is zero.
\<close>

theorem threshold_binary_strict:
  assumes "y < length g" and "x < length (g ! y)"
  shows "\<exists>t. threshold (Gray g) = Gray t \<and> length t = length g
            \<and> length (t ! y) = length (g ! y)
            \<and> t ! y ! x = (if uint (g ! y ! x) > 30 then 255 else 0)"
  using assms by (simp add: threshold_def thresh_binary_THRESH)

theorem threshold_binary_strict_witness:
  "(1::nat) < length [[10, 31], [30, 200 :: pixel]]
   \<and> (0::nat) < length ([[10, 31], [30, 200 :: pixel]] ! 1)
   \<and> (\<exists>t. threshold (Gray [[10, 31], [30, 200]]) = Gray t \<and> t ! 1 ! 0 = 0)"
  using threshold_binary_strict [of 1 "[[10, 31], [30, 200]]" 0] by auto

text \<open>
  C3: applying the thresholder twice yields the same image as applying it once, for
  every image.
\<close>

theorem threshold_idempotent: "threshold (threshold img) = threshold img"
  by (cases img) (simp_all add: threshold_def thresh_binary_idem)

section \<open>Properties of the circle detector\<close>

lemma length_cv_rectangle_filled [simp]:
  "length (cv_rectangle_filled g pt1 pt2 c) = length g"
  by (simp add: cv_rectangle_filled_def)

lemma length_cv_rectangle_filled_row [simp]:
  "y < length g \<Longrightarrow> length (cv_rectangle_filled g pt1 pt2 c ! y) = length (g ! y)"
  by (simp add: cv_rectangle_filled_def nth_enumerate_eq)

lemma cv_rectangle_filled_nth:
  "y < length g \<Longrightarrow> x < length (g ! y) \<Longrightarrow>
   cv_rectangle_filled g pt1 pt2 c ! y ! x
     = (if in_rect pt1 pt2 (int x) (int y) then c else g ! y ! x)"
  by (simp add: cv_rectangle_filled_def nth_enumerate_eq)

lemma shape_cv_rectangle_filled [simp]:
  "shape (cv_rectangle_filled g pt1 pt2 c) = shape g"
  by (cases g)
    (simp_all add: shape_def cv_rectangle_filled_def enumerate_eq_zip upt_conv_Cons
      del: upt_Suc)

lemma rectangular_nth:
  "rectangular g \<Longrightarrow> y < length g \<Longrightarrow> length (g ! y) = snd (shape g)"
  by (simp add: rectangular_def list_all_length)

lemma shape_mask_quadrants [simp]: "shape (mask_quadrants g) = shape g"
  by (simp add: mask_quadrants_def Let_def split: prod.splits)

text \<open>
  What the two rectangles leave: a sample survives when it lies right of the middle
  column and above the middle row.
\<close>

lemma mask_quadrants_nth:
  assumes "rectangular g" and "shape g = (h, w)" and "y < h" and "x < w"
  shows "mask_quadrants g ! y ! x = (if x \<le> w div 2 \<or> h div 2 \<le> y then 0 else g ! y ! x)"
proof -
  have h: "length g = h"
    using assms(2) by (simp add: shape_def)
  have len: "length (g ! y) = w"
    using rectangular_nth [OF assms(1), of y] assms h by simp
  show ?thesis
    using assms(3,4) h len assms(2)
    by (simp add: mask_quadrants_def cv_rectangle_filled_nth in_rect_def)
qed

lemma hough_circles_on_contents:
  "snd (hough_circles_on W (Gray g)) = Gray (mask_quadrants g)"
  by (simp add: hough_circles_on_def Let_def split: option.splits list.splits)

lemma hough_circles_cells:
  "cells (snd (hough_circles W hp img)) r
     = (if r = img then snd (hough_circles_on W (cells hp img)) else cells hp r)"
  by (simp add: hough_circles_def split: prod.splits)

lemma hough_circles_fst:
  "fst (hough_circles W hp img) = fst (hough_circles_on W (cells hp img))"
  by (simp add: hough_circles_def split: prod.splits)

lemma example_gray_rectangular: "rectangular example_gray"
  by (simp add: rectangular_def shape_def example_gray_def)

lemma example_gray_shape: "shape example_gray = (4, 4)"
  by (simp add: shape_def example_gray_def)

lemma example_heap_cells: "cells example_heap r = Gray example_gray"
  by (simp add: example_heap_def)

text \<open>
  C4, as the specification states it, fails: on a 4 by 4 image the detector also zeroes
  the bottom right quadrant (the sample at row 3, column 3, which is not in the left half)
  and the middle column \<open>x = w div 2\<close> of the top rows (row 0, column 2).
\<close>

theorem hough_circles_mask_counterexample:
  "cells example_heap 0 = Gray [[9, 9, 9, 9], [9, 9, 9, 9], [9, 9, 9, 9], [9, 9, 9, 9]]
   \<and> cells (snd (hough_circles example_world example_heap 0)) 0
        = Gray [[0, 0, 0, 9], [0, 0, 0, 9], [0, 0, 0, 0], [0, 0, 0, 0]]
   \<and> \<not> (3 :: nat) < 4 div 2"
  by (simp add: hough_circles_cells hough_circles_on_contents example_heap_def
      example_gray_def mask_quadrants_def shape_def cv_rectangle_filled_def in_rect_def
      enumerate_eq_zip upt_conv_Cons del: upt_Suc)

text \<open>
  C4 (amended): for every h-by-w grayscale image passed to the circle detector, the array
  the caller passed holds, after the call, an image of the same shape in which every
  sample with \<open>x \<le> w div 2\<close> (the left half and the middle column, over the full height)
  or \<open>y \<ge> h div 2\<close> (the bottom half, over the full width) is zero, and every sample of
  the top right region (\<open>x > w div 2\<close> and \<open>y < h div 2\<close>) is unchanged.
\<close>

theorem hough_circles_masks_in_place:
  assumes "cells hp img = Gray g" and "rectangular g" and "shape g = (h, w)"
    and "y < h" and "x < w"
  shows "\<exists>g'. cells (snd (hough_circles W hp img)) img = Gray g' \<and> shape g' = (h, w)
           \<and> g' ! y ! x = (if x \<le> w div 2 \<or> h div 2 \<le> y then 0 else g ! y ! x)"
  using assms by (simp add: hough_circles_cells hough_circles_on_contents mask_quadrants_nth)

theorem hough_circles_masks_in_place_witness:
  "cells example_heap 0 = Gray example_gray
   \<and> rectangular example_gray
   \<and> shape example_gray = (4, 4)
   \<and> (\<exists>g'. cells (snd (hough_circles example_world example_heap 0)) 0 = Gray g'
          \<and> g' ! 1 ! 3 = example_gray ! 1 ! 3 \<and> g' ! 1 ! 2 = 0 \<and> g' ! 2 ! 3 = 0)"
proof -
  note c = example_heap_cells [of 0]
  note r = example_gray_rectangular
  note s = example_gray_shape
  from hough_circles_masks_in_place [OF c r s, of 1 3 example_world]
       hough_circles_masks_in_place [OF c r s, of 1 2 example_world]
       hough_circles_masks_in_place [OF c r s, of 2 3 example_world]
  show ?thesis using c r s by auto
qed

text \<open>The arrays behind all other references are left alone.\<close>

lemma hough_circles_frame:
  "r \<noteq> img \<Longrightarrow> cells (snd (hough_circles W hp img)) r = cells hp r"
  by (simp add: hough_circles_cells)

lemma circle_tuples_map:
  "list_all (\<lambda>c. length c = 3) rows \<Longrightarrow>
   circle_tuples rows out = Inr (out @ map (\<lambda>c. (c ! 0, c ! 1, c ! 2)) rows)"
  by (induction rows arbitrary: out) simp_all

text \<open>
  C5: on a grayscale image, when the Hough transform (run on the masked image) finds no
  circle the detector returns the empty list, as a value and not as an error; when it
  returns an array of shape (1, N, 3) the detector returns the N rows as triples
  \<open>(x, y, radius)\<close>, in the order of the array.
\<close>

theorem hough_circles_output:
  assumes "cells hp img = Gray g"
  shows "(HoughCircles W (mask_quadrants g) = None \<longrightarrow> fst (hough_circles W hp img) = Inr [])
       \<and> (HoughCircles W (mask_quadrants g) = Some [rows] \<and> list_all (\<lambda>c. length c = 3) rows
            \<longrightarrow> fst (hough_circles W hp img) = Inr (map (\<lambda>c. (c ! 0, c ! 1, c ! 2)) rows))"
  using assms by (simp add: hough_circles_fst hough_circles_on_def circle_tuples_map)

theorem hough_circles_output_witness:
  "cells example_heap 0 = Gray example_gray
   \<and> HoughCircles example_world (mask_quadrants example_gray) = None
   \<and> fst (hough_circles example_world example_heap 0) = Inr []
   \<and> HoughCircles (example_world\<lparr>HoughCircles := \<lambda>g. Some [[[3, 1, 2], [1, 1, 1]]]\<rparr>)
        (mask_quadrants example_gray) = Some [[[3, 1, 2], [1, 1, 1]]]
   \<and> list_all (\<lambda>c. length c = 3) [[3, 1, 2], [1, 1, 1 :: nat]]
   \<and> fst (hough_circles (example_world\<lparr>HoughCircles := \<lambda>g. Some [[[3, 1, 2], [1, 1, 1]]]\<rparr>)
          example_heap 0) = Inr [(3, 1, 2), (1, 1, 1)]"
proof -
  note c = example_heap_cells [of 0]
  have n: "HoughCircles example_world (mask_quadrants example_gray) = None"
    by (simp add: example_world_def)
  from hough_circles_output [OF c, of example_world]
       hough_circles_output [OF c,
         of "example_world\<lparr>HoughCircles := \<lambda>g. Some [[[3, 1, 2], [1, 1, 1]]]\<rparr>"
            "[[3, 1, 2], [1, 1, 1]]"]
  show ?thesis using c n by simp
qed

section \<open>Properties of the loader and the notch detector\<close>

lemma load_image_resize_not_None: "load_image W path gs eq True \<noteq> Inr None"
  by (simp add: load_image_def Let_def split: sum.splits option.splits)

text \<open>The loader ends in one of three exceptions, each raised by Python or by OpenCV.\<close>

lemma load_image_error:
  "load_image W path gs eq rs = Inl e \<Longrightarrow> e \<in> {CvError, AttributeError, ZeroDivisionError}"
  by (auto simp add: load_image_def cv_equalizeHist_def cv_resize_by_def cv_resize_to_def
      Let_def split: if_splits sum.splits option.splits image.splits)

lemma example_load:
  "load_image example_world ''eye.jpeg'' True False True
     = Inr (Some (Gray (nearest example_gray 512 512)))"
  by (simp add: load_image_def example_world_def img_rows_def img_cols_def shape_def
      example_gray_def STD_RES_def cv_resize_by_def cv_resize_to_def cvRound_def)

lemma example_detect: "hough_circles_on example_world (Gray g) = (Inr [], Gray (mask_quadrants g))"
  by (simp add: hough_circles_on_def example_world_def)

text \<open>
  C1, as the specification states it, fails: the code has no check and no error of that
  name. When the file decodes and no circle is found, the function ends in the
  \<open>IndexError\<close> of \<open>circles[0]\<close>.
\<close>

theorem notch_detection_no_circle_counterexample:
  "load_image example_world ''eye.jpeg'' True False True
     = Inr (Some (Gray (nearest example_gray 512 512)))
   \<and> fst (hough_circles_on example_world (Gray (nearest example_gray 512 512))) = Inr []
   \<and> fst (experiment_notch_detection example_world example_heap ''eye.jpeg'') = Inl IndexError
   \<and> fst (experiment_notch_detection example_world example_heap ''eye.jpeg'')
        \<noteq> Inl NoCircleDetectedError"
proof -
  have "fst (experiment_notch_detection example_world example_heap ''eye.jpeg'') = Inl IndexError"
    using example_load
    by (simp add: experiment_notch_detection_def alloc_def hough_circles_def example_detect)
  then show ?thesis
    using example_load by (simp add: example_detect)
qed

text \<open>
  C1 (amended): for every image that the loader returns and on which circle detection
  yields the empty list, notch detection fails with the \<open>IndexError\<close> that the access to
  the first element of the empty circle list raises.
\<close>

theorem notch_detection_no_circle:
  assumes "load_image W path True False True = Inr (Some loaded)"
    and "fst (hough_circles_on W loaded) = Inr []"
  shows "fst (experiment_notch_detection W hp path) = Inl IndexError"
proof -
  obtain contents where "hough_circles_on W loaded = (Inr [], contents)"
    using assms(2) by (cases "hough_circles_on W loaded") simp
  then show ?thesis
    using assms(1)
    by (simp add: experiment_notch_detection_def alloc_def hough_circles_def)
qed

theorem notch_detection_no_circle_witness:
  "load_image example_world ''eye.jpeg'' True False True
     = Inr (Some (Gray (nearest example_gray 512 512)))
   \<and> fst (hough_circles_on example_world (Gray (nearest example_gray 512 512))) = Inr []
   \<and> fst (experiment_notch_detection example_world example_heap ''eye.jpeg'') = Inl IndexError"
proof -
  have d: "fst (hough_circles_on example_world (Gray (nearest example_gray 512 512))) = Inr []"
    by (simp add: example_detect)
  show ?thesis
    using notch_detection_no_circle [OF example_load d, of example_heap] example_load d
    by simp
qed

text \<open>
  C9, as the specification states it, fails: the loader has no check of its own; the
  failure is the \<open>cv2.error\<close> of the assertion inside \<open>cv.equalizeHist\<close>.
\<close>

theorem load_image_equalize_colour_counterexample:
  "imread example_world ''eye.jpeg'' False = Some (Colour [[[1, 2, 3], [4, 5, 6]]])
   \<and> load_image example_world ''eye.jpeg'' False True True = Inl CvError
   \<and> load_image example_world ''eye.jpeg'' False True True \<noteq> Inl InvalidFormatError"
  by (simp add: load_image_def cv_equalizeHist_def example_world_def)

text \<open>
  C9 (amended): for every image loaded with \<open>equalize\<close> set whose decoded data has a
  channel axis, the loader fails with the \<open>cv2.error\<close> that \<open>cv.equalizeHist\<close> raises,
  whatever the other flags; it returns no image.
\<close>

theorem load_image_equalize_colour:
  assumes "imread W path gs = Some (Colour c)"
  shows "load_image W path gs True resize = Inl CvError"
  using assms by (simp add: load_image_def cv_equalizeHist_def)

theorem load_image_equalize_colour_witness:
  "imread example_world ''eye.jpeg'' False = Some (Colour [[[1, 2, 3], [4, 5, 6]]])
   \<and> load_image example_world ''eye.jpeg'' False True False = Inl CvError"
proof -
  have i: "imread example_world ''eye.jpeg'' False = Some (Colour [[[1, 2, 3], [4, 5, 6]]])"
    by (simp add: example_world_def)
  show ?thesis
    using load_image_equalize_colour [OF i, of False] i by simp
qed

section \<open>Properties of the drawing\<close>

text \<open>Where \<open>cv.circle\<close> accepts every circle, the loop is a fold over the list.\<close>

lemma draw_circles_accepted:
  assumes "\<And>out x y r. cv_circle W out (x, y) r [0, 0, 255] 2 = Inr (f out (x, y) r)"
  shows "draw_circles W drawn circles
           = (None, foldl (\<lambda>out (x, y, r). f out (x, y) r) drawn circles)"
  using assms by (induction circles arbitrary: drawn) auto

text \<open>Where it rejects the first circle, nothing is drawn.\<close>

lemma draw_circles_rejected:
  "cv_circle W output (x, y) r [0, 0, 255] 2 = Inl e \<Longrightarrow>
   draw_circles W output ((x, y, r) # cs) = (Some e, output)"
  by simp

lemma example_heap_next: "next_ref example_heap = 1"
  by (simp add: example_heap_def)







section \<open>Properties of the bounding-box normalizer\<close>

lemma filter_upt_hd_last:
  assumes "filter P [0..<n] \<noteq> []"
  shows "hd (filter P [0..<n]) \<le> last (filter P [0..<n]) \<and> last (filter P [0..<n]) < n"
proof -
  let ?xs = "filter P [0..<n]"
  have s: "sorted ?xs" by (simp add: sorted_filter [where f = "\<lambda>x. x", simplified])
  have "hd ?xs = ?xs ! 0" using assms by (simp add: hd_conv_nth)
  moreover have "last ?xs = ?xs ! (length ?xs - 1)" using assms by (simp add: last_conv_nth)
  ultimately have "hd ?xs \<le> last ?xs"
    using s assms by (simp add: sorted_nth_mono)
  moreover have "last ?xs \<in> set ?xs" using assms by (rule last_in_set)
  then have "last ?xs < n" by simp
  ultimately show ?thesis by simp
qed

lemma bounding_rect_degenerate:
  assumes "bounding_rect t = (x, y, w, h)" and "w = 0 \<or> h = 0"
  shows "x = 0 \<and> y = 0 \<and> w = 0 \<and> h = 0"
  using assms by (auto simp add: bounding_rect_def Let_def split: if_splits)

lemma bounding_rect_inside:
  assumes "bounding_rect t = (x, y, w, h)"
  shows "x + w \<le> snd (shape t) \<and> y + h \<le> length t"
proof (cases "nonzero_rows t = [] \<or> nonzero_cols t = []")
  case True
  then show ?thesis using assms by (auto simp add: bounding_rect_def)
next
  case False
  then have ys: "filter (\<lambda>y. list_ex (\<lambda>p. p \<noteq> 0) (t ! y)) [0..<length t] \<noteq> []"
    and xs: "filter (\<lambda>x. list_ex (\<lambda>row. x < length row \<and> row ! x \<noteq> 0) t) [0..<snd (shape t)] \<noteq> []"
    by (simp_all add: nonzero_rows_def nonzero_cols_def)
  from filter_upt_hd_last [OF ys] filter_upt_hd_last [OF xs] False assms
  show ?thesis
    by (auto simp add: bounding_rect_def nonzero_rows_def nonzero_cols_def Let_def)
qed

lemma shape_map_map [simp]: "shape (map (map f) g) = shape g"
  by (cases g) (simp_all add: shape_def)

lemma threshold_Gray: "threshold (Gray g) = Gray (map (map (thresh_binary THRESH 255)) g)"
  by (simp add: threshold_def)

lemma threshold_Colour: "threshold (Colour c) = Colour (map (map (map (thresh_binary THRESH 255))) c)"
  by (simp add: threshold_def)

lemma bb_canvas_Colour: "bb_canvas (Colour c) = Inl CvError"
  by (simp add: bb_canvas_def threshold_Colour cv_boundingRect_def)

lemma bb_canvas_Gray:
  "bb_canvas (Gray g) =
     (let (x, y, w, h) = bounding_rect (map (map (thresh_binary THRESH 255)) g);
          max_wh = max w h
      in assign_slice2 (np_zeros max_wh max_wh) ((max_wh - h) div 2) ((max_wh - h) div 2 + h)
           ((max_wh - w) div 2) ((max_wh - w) div 2 + w) (slice2 g y (y + h) x (x + w)))"
  by (simp add: bb_canvas_def threshold_Gray cv_boundingRect_def Let_def split: prod.splits)

lemma all_background:
  assumes "list_all (list_all (\<lambda>p. uint p \<le> 30)) g"
  shows "cv_boundingRect (threshold (Gray g)) = Inr (0, 0, 0, 0)"
proof -
  have "\<And>y. y < length g \<Longrightarrow> \<not> list_ex (\<lambda>p. p \<noteq> 0) (map (thresh_binary THRESH 255) (g ! y))"
    using assms
    by (fastforce simp add: list_all_length list_ex_length thresh_binary_THRESH)
  then have "nonzero_rows (map (map (thresh_binary THRESH 255)) g) = []"
    by (auto simp add: nonzero_rows_def filter_empty_conv)
  then show ?thesis
    by (simp add: threshold_Gray cv_boundingRect_def bounding_rect_def)
qed

lemma shape_nonempty: "g \<noteq> [] \<Longrightarrow> shape g = (length g, length (g ! 0))"
  by (cases g) (simp_all add: shape_def)

lemma length_slice2: "r0 + n \<le> length a \<Longrightarrow> length (slice2 a r0 (r0 + n) c0 c1) = n"
  by (simp add: slice2_def)

lemma slice2_row:
  assumes "r0 + n \<le> length a" and "i < n"
  shows "slice2 a r0 (r0 + n) c0 (c0 + m) ! i = take m (drop c0 (a ! (r0 + i)))"
  using assms by (simp add: slice2_def)

lemma slice2_nth:
  assumes "r0 + n \<le> length a" and "i < n" and "c0 + m \<le> length (a ! (r0 + i))" and "j < m"
  shows "slice2 a r0 (r0 + n) c0 (c0 + m) ! i ! j = a ! (r0 + i) ! (c0 + j)"
  using assms by (simp add: slice2_row)

lemma shape_slice2:
  assumes "rectangular a" and "r0 + n \<le> length a" and "c0 + m \<le> snd (shape a)" and "0 < n"
  shows "shape (slice2 a r0 (r0 + n) c0 (c0 + m)) = (n, m)"
proof -
  have ne: "slice2 a r0 (r0 + n) c0 (c0 + m) \<noteq> []"
    using length_slice2 [OF assms(2), of c0 "c0 + m"] assms(4) by auto
  have "length (a ! (r0 + 0)) = snd (shape a)"
    using assms by (intro rectangular_nth) simp_all
  then have "length (slice2 a r0 (r0 + n) c0 (c0 + m) ! 0) = m"
    using assms by (simp add: slice2_row)
  then show ?thesis
    using ne length_slice2 [OF assms(2), of c0 "c0 + m"] by (simp add: shape_nonempty)
qed

lemma length_np_zeros [simp]: "length (np_zeros n m) = n"
  by (simp add: np_zeros_def)

lemma np_zeros_row [simp]: "i < n \<Longrightarrow> np_zeros n m ! i = replicate m 0"
  by (simp add: np_zeros_def)

lemma shape_np_zeros: "0 < n \<Longrightarrow> shape (np_zeros n m) = (n, m)"
  by (cases n) (simp_all add: np_zeros_def shape_def)

lemma rectangular_np_zeros: "rectangular (np_zeros n m)"
  by (cases n) (simp_all add: rectangular_def np_zeros_def shape_def list_all_iff)

lemma assign_slice2_same_shape:
  assumes "shape (slice2 dst r0 r1 c0 c1) = (th, tw)" and "shape src = (th, tw)"
  shows "\<exists>res. assign_slice2 dst r0 r1 c0 c1 src = Inr res \<and> length res = length dst
           \<and> (\<forall>i<length dst. length (res ! i) = length (dst ! i)
                \<and> (\<forall>j<length (dst ! i).
                      res ! i ! j = (if r0 \<le> i \<and> i < r0 + th \<and> c0 \<le> j \<and> j < c0 + tw
                                     then src ! (i - r0) ! (j - c0) else dst ! i ! j)))"
proof -
  have "\<And>i. r0 \<le> i \<Longrightarrow> i < r0 + th \<Longrightarrow> (if th = 1 then 0 else i - r0) = i - r0"
    by auto
  moreover have "\<And>j. c0 \<le> j \<Longrightarrow> j < c0 + tw \<Longrightarrow> (if tw = 1 then 0 else j - c0) = j - c0"
    by auto
  ultimately show ?thesis
    using assms by (auto simp add: assign_slice2_def nth_enumerate_eq)
qed

lemma bb_canvas_core:
  assumes rect: "rectangular g"
    and bb: "cv_boundingRect (threshold (Gray g)) = Inr (x, y, w, h)"
    and pos: "0 < w" "0 < h"
    and ij: "i < max w h" "j < max w h"
  shows "\<exists>canvas. bb_canvas (Gray g) = Inr canvas
           \<and> shape canvas = (max w h, max w h) \<and> rectangular canvas
           \<and> canvas ! i ! j =
               (if (max w h - h) div 2 \<le> i \<and> i < (max w h - h) div 2 + h
                   \<and> (max w h - w) div 2 \<le> j \<and> j < (max w h - w) div 2 + w
                then g ! (y + (i - (max w h - h) div 2)) ! (x + (j - (max w h - w) div 2))
                else 0)
           \<and> (max w h - w) div 2 + w + (max w h - w + 1) div 2 = max w h
           \<and> (max w h - h) div 2 + h + (max w h - h + 1) div 2 = max w h"
proof -
  define s where "s = max w h"
  define top where "top = (s - h) div 2"
  define left where "left = (s - w) div 2"
  have b: "bounding_rect (map (map (thresh_binary THRESH 255)) g) = (x, y, w, h)"
    using bb by (simp add: threshold_Gray cv_boundingRect_def)
  from bounding_rect_inside [OF b]
  have inside: "x + w \<le> snd (shape g)" "y + h \<le> length g" by simp_all
  have s: "0 < s" "top + h \<le> s" "left + w \<le> s"
    using pos by (auto simp add: s_def top_def left_def)
  have roi: "shape (slice2 g y (y + h) x (x + w)) = (h, w)"
    using rect inside pos by (simp add: shape_slice2)
  have tgt: "shape (slice2 (np_zeros s s) top (top + h) left (left + w)) = (h, w)"
    using s pos by (simp add: shape_slice2 rectangular_np_zeros shape_np_zeros)
  from assign_slice2_same_shape [OF tgt roi]
  obtain res where res: "assign_slice2 (np_zeros s s) top (top + h) left (left + w)
        (slice2 g y (y + h) x (x + w)) = Inr res"
    and len: "length res = s"
    and rows: "\<And>i. i < s \<Longrightarrow> length (res ! i) = s"
    and px: "\<And>i j. i < s \<Longrightarrow> j < s \<Longrightarrow>
          res ! i ! j = (if top \<le> i \<and> i < top + h \<and> left \<le> j \<and> j < left + w
                         then slice2 g y (y + h) x (x + w) ! (i - top) ! (j - left) else 0)"
    by auto
  have canvas: "bb_canvas (Gray g) = Inr res"
    using res by (simp add: bb_canvas_Gray b s_def top_def left_def)
  have ne: "res \<noteq> []" using len s by auto
  have sh: "shape res = (s, s)"
    using ne len rows [of 0] s by (simp add: shape_nonempty)
  have rc: "rectangular res"
    using sh len rows by (simp add: rectangular_def list_all_length)
  have "res ! i ! j = (if top \<le> i \<and> i < top + h \<and> left \<le> j \<and> j < left + w
                        then g ! (y + (i - top)) ! (x + (j - left)) else 0)"
  proof (cases "top \<le> i \<and> i < top + h \<and> left \<le> j \<and> j < left + w")
    case True
    then have i': "i - top < h" and j': "j - left < w" by auto
    have "length (g ! (y + (i - top))) = snd (shape g)"
      using rect inside i' by (intro rectangular_nth) simp_all
    then have "slice2 g y (y + h) x (x + w) ! (i - top) ! (j - left)
               = g ! (y + (i - top)) ! (x + (j - left))"
      using inside i' j' by (simp add: slice2_nth)
    then show ?thesis using True px [of i j] ij by (simp add: s_def)
  next
    case False
    then show ?thesis using px [of i j] ij by (auto simp add: s_def)
  qed
  moreover have "left + w + (s - w + 1) div 2 = s" "top + h + (s - h + 1) div 2 = s"
    unfolding left_def top_def s_def by (simp_all add: max_def) presburger+
  ultimately show ?thesis
    using canvas sh rc unfolding s_def top_def left_def by simp
qed

text \<open>
  C6: for every (rectangular) grayscale image whose thresholded bounding rectangle
  \<open>(x, y, w, h)\<close> has \<open>w > 0\<close> and \<open>h > 0\<close>, the normalizer's canvas is a square of side
  \<open>max w h\<close>; it holds the bounding-box region of the original image, not of the
  thresholded one, at left offset \<open>(side - w) div 2\<close> and top offset \<open>(side - h) div 2\<close>,
  and zero elsewhere; the padding after the region is \<open>(side - w + 1) div 2\<close> columns and
  \<open>(side - h + 1) div 2\<close> rows, so an odd difference leaves the extra pixel on the right or
  at the bottom.
\<close>

theorem bb_canvas_centred:
  assumes rect: "rectangular g"
    and bb: "cv_boundingRect (threshold (Gray g)) = Inr (x, y, w, h)"
    and pos: "0 < w" "0 < h"
    and ij: "i < max w h" "j < max w h"
  shows "\<exists>canvas. bb_canvas (Gray g) = Inr canvas
           \<and> shape canvas = (max w h, max w h) \<and> rectangular canvas
           \<and> canvas ! i ! j =
               (if (max w h - h) div 2 \<le> i \<and> i < (max w h - h) div 2 + h
                   \<and> (max w h - w) div 2 \<le> j \<and> j < (max w h - w) div 2 + w
                then g ! (y + (i - (max w h - h) div 2)) ! (x + (j - (max w h - w) div 2))
                else 0)
           \<and> (max w h - w) div 2 + w + (max w h - w + 1) div 2 = max w h
           \<and> (max w h - h) div 2 + h + (max w h - h + 1) div 2 = max w h"
  using assms by (rule bb_canvas_core)

lemma example_eye_rect: "cv_boundingRect (threshold (Gray example_eye)) = Inr (1, 1, 3, 2)"
  by (simp add: threshold_Gray thresh_binary_THRESH cv_boundingRect_def bounding_rect_def
      nonzero_rows_def nonzero_cols_def shape_def example_eye_def upt_conv_Cons del: upt_Suc)

lemma example_eye_rectangular: "rectangular example_eye"
  by (simp add: rectangular_def shape_def example_eye_def)

theorem bb_canvas_centred_witness:
  "rectangular example_eye
   \<and> cv_boundingRect (threshold (Gray example_eye)) = Inr (1, 1, 3, 2)
   \<and> (\<exists>canvas. bb_canvas (Gray example_eye) = Inr canvas \<and> shape canvas = (3, 3)
         \<and> canvas ! 1 ! 0 = 70 \<and> canvas ! 2 ! 0 = 0)"
  using bb_canvas_centred [OF example_eye_rectangular example_eye_rect, of 1 0]
        bb_canvas_centred [OF example_eye_rectangular example_eye_rect, of 2 0]
        example_eye_rectangular example_eye_rect
  by (auto simp add: example_eye_def)

text \<open>The whole canvas of the example: the odd row of padding is the last one.\<close>

lemma example_eye_canvas:
  "bb_canvas (Gray example_eye) = Inr [[40, 50, 60], [70, 0, 0], [0, 0, 0]]"
  by code_simp

text \<open>With a proper bounding box the function gets through the resize and returns \<open>None\<close>.\<close>

lemma bb_resize_returns:
  assumes "rectangular g" and "cv_boundingRect (threshold (Gray g)) = Inr (x, y, w, h)"
    and "0 < w" and "0 < h"
  shows "bb_resize W (Gray g) = Inr ()"
proof -
  have "0 < max w h" using assms(3) by simp
  with bb_canvas_core [OF assms(1,2,3,4), of 0 0]
  obtain canvas where "bb_canvas (Gray g) = Inr canvas" and "shape canvas = (max w h, max w h)"
    by auto
  then show ?thesis
    using assms(3)
    by (simp add: bb_resize_def cv_resize_to_def img_rows_def img_cols_def STD_RES_def)
qed

text \<open>The normalizer ends in no exception but those of OpenCV and numpy.\<close>

lemma bb_resize_error: "bb_resize W img = Inl e \<Longrightarrow> e \<in> {CvError, ValueError}"
  by (auto simp add: bb_resize_def bb_canvas_def cv_boundingRect_def assign_slice2_def
      cv_resize_to_def Let_def split: if_splits sum.splits image.splits prod.splits)

lemma example_dark_rect: "cv_boundingRect (threshold (Gray example_dark)) = Inr (0, 0, 0, 0)"
  by (simp add: threshold_Gray thresh_binary_THRESH cv_boundingRect_def bounding_rect_def
      nonzero_rows_def nonzero_cols_def shape_def example_dark_def upt_conv_Cons del: upt_Suc)

text \<open>
  C7, as the specification states it, fails: for an image with nothing above the cutoff
  the canvas is allocated with size zero, and the failure is the \<open>cv2.error\<close> of
  \<open>cv.resize\<close> on an empty source.
\<close>

theorem bb_resize_degenerate_counterexample:
  "cv_boundingRect (threshold (Gray example_dark)) = Inr (0, 0, 0, 0)
   \<and> bb_canvas (Gray example_dark) = Inr []
   \<and> bb_resize example_world (Gray example_dark) = Inl CvError
   \<and> bb_resize example_world (Gray example_dark) \<noteq> Inl DegenerateBoundingBoxError"
proof -
  have "bb_canvas (Gray example_dark) = Inr []"
    using example_dark_rect
    by (simp add: bb_canvas_def np_zeros_def slice2_def assign_slice2_def shape_def)
  then show ?thesis
    using example_dark_rect
    by (simp add: bb_resize_def cv_resize_to_def img_rows_def shape_def)
qed

text \<open>
  C7 (amended): for every grayscale image whose thresholded bounding rectangle has zero
  width or zero height, the normalizer builds a canvas of size zero and then fails with
  the \<open>cv2.error\<close> that \<open>cv.resize\<close> raises for an empty source.
\<close>

theorem bb_resize_degenerate:
  assumes "cv_boundingRect (threshold (Gray g)) = Inr (x, y, w, h)" and "w = 0 \<or> h = 0"
  shows "bb_canvas (Gray g) = Inr [] \<and> bb_resize W (Gray g) = Inl CvError"
proof -
  have b: "bounding_rect (map (map (thresh_binary THRESH 255)) g) = (x, y, w, h)"
    using assms(1) by (simp add: threshold_Gray cv_boundingRect_def)
  from bounding_rect_degenerate [OF b assms(2)]
  have z: "x = 0" "y = 0" "w = 0" "h = 0" by simp_all
  have c: "bb_canvas (Gray g) = Inr []"
    by (simp add: bb_canvas_Gray b z np_zeros_def slice2_def assign_slice2_def shape_def)
  then show ?thesis
    by (simp add: bb_resize_def cv_resize_to_def img_rows_def shape_def)
qed

theorem bb_resize_degenerate_witness:
  "cv_boundingRect (threshold (Gray example_dark)) = Inr (0, 0, 0, 0)
   \<and> bb_canvas (Gray example_dark) = Inr []
   \<and> bb_resize example_world (Gray example_dark) = Inl CvError"
  using bb_resize_degenerate [OF example_dark_rect, of example_world] example_dark_rect
  by simp

section \<open>Resizing in the loader\<close>

lemma cvRound_cases:
  "cvRound v = \<lfloor>v\<rfloor> \<and> v - of_int \<lfloor>v\<rfloor> \<le> 1 / 2
   \<or> cvRound v = \<lfloor>v\<rfloor> + 1 \<and> 1 / 2 \<le> v - of_int \<lfloor>v\<rfloor>"
proof -
  define d where "d = v - of_int \<lfloor>v\<rfloor>"
  have eq: "cvRound v = (if d < 1 / 2 then \<lfloor>v\<rfloor> else if 1 / 2 < d then \<lfloor>v\<rfloor> + 1
                         else if even \<lfloor>v\<rfloor> then \<lfloor>v\<rfloor> else \<lfloor>v\<rfloor> + 1)"
    unfolding cvRound_def Let_def d_def by (rule refl)
  consider "d < 1 / 2" | "1 / 2 < d" | "d = 1 / 2" by linarith
  then have "cvRound v = \<lfloor>v\<rfloor> \<and> d \<le> 1 / 2 \<or> cvRound v = \<lfloor>v\<rfloor> + 1 \<and> 1 / 2 \<le> d"
  proof cases
    case 1
    then show ?thesis unfolding eq by simp
  next
    case 2
    then show ?thesis unfolding eq by simp
  next
    case 3
    then show ?thesis unfolding eq by simp
  qed
  then show ?thesis unfolding d_def .
qed

lemma cvRound_close: "\<bar>of_int (cvRound v) - v\<bar> \<le> 1 / 2"
proof -
  have "of_int \<lfloor>v\<rfloor> \<le> v" "v < of_int \<lfloor>v\<rfloor> + 1" by linarith+
  then show ?thesis using cvRound_cases [of v] by (elim disjE conjE) simp_all
qed

lemma cvRound_near:
  assumes "\<bar>v - of_int n\<bar> < 1 / 2"
  shows "cvRound v = n"
proof -
  have "\<bar>of_int (cvRound v) - (of_int n :: real)\<bar> < 1"
    using cvRound_close [of v] assms by linarith
  then have "\<bar>(of_int (cvRound v - n) :: real)\<bar> < 1" by simp
  then have "\<bar>cvRound v - n\<bar> < 1"
    by (metis of_int_abs of_int_less_1_iff)
  then show ?thesis by simp
qed

lemma cvRound_pos:
  assumes "1 / 2 < v"
  shows "0 < cvRound v"
proof -
  have "(0 :: real) < of_int (cvRound v)"
    using cvRound_close [of v] assms by linarith
  then show ?thesis by simp
qed

lemma float_eps_bounds: "0 < float_eps" "float_eps < 1 / 2 ^ 12"
  by (simp_all add: float_eps_def)

lemma scaled_height:
  fixes H ratio hr :: real
  assumes H: "0 < H"
    and r: "\<bar>ratio - 512 / H\<bar> \<le> float_eps * (512 / H)"
    and m: "\<bar>hr - H * ratio\<bar> \<le> float_eps * \<bar>H * ratio\<bar>"
  shows "\<bar>hr - 512\<bar> < 1 / 2"
proof -
  have e: "0 < float_eps" "float_eps < 1 / 2 ^ 12" by (rule float_eps_bounds)+
  have "H * ratio - 512 = H * (ratio - 512 / H)"
    using H by (simp add: field_simps)
  then have "\<bar>H * ratio - 512\<bar> = H * \<bar>ratio - 512 / H\<bar>"
    using H by (simp add: abs_mult)
  also have "\<dots> \<le> H * (float_eps * (512 / H))"
    using r H by (intro mult_left_mono) simp_all
  also have "\<dots> = 512 * float_eps" using H by simp
  finally have a: "\<bar>H * ratio - 512\<bar> \<le> 512 * float_eps" .
  then have b: "\<bar>H * ratio\<bar> \<le> 512 + 512 * float_eps" by linarith
  have "float_eps * \<bar>H * ratio\<bar> \<le> float_eps * (512 + 512 * float_eps)"
    using b e by (intro mult_left_mono) simp_all
  also have "\<dots> \<le> float_eps * 513"
    using e by (intro mult_left_mono) simp_all
  finally have c: "\<bar>hr - H * ratio\<bar> \<le> 513 * float_eps" using m by linarith
  have "\<bar>hr - 512\<bar> \<le> 1025 * float_eps" using a c by linarith
  then show ?thesis using e by simp
qed

lemma ratio_pos:
  fixes H ratio :: real
  assumes H: "0 < H"
    and r: "\<bar>ratio - 512 / H\<bar> \<le> float_eps * (512 / H)"
  shows "0 < ratio"
proof -
  have e: "0 < float_eps" "float_eps < 1 / 2 ^ 12" by (rule float_eps_bounds)+
  have p: "0 < 512 / H" using H by simp
  have "float_eps * (512 / H) < 1 * (512 / H)"
    using e p by (intro mult_strict_right_mono) simp_all
  then show ?thesis using r by linarith
qed

lemma scaled_width:
  fixes H C ratio wr :: real
  assumes H: "0 < H" and C: "0 \<le> C"
    and r: "\<bar>ratio - 512 / H\<bar> \<le> float_eps * (512 / H)"
    and m: "\<bar>wr - C * ratio\<bar> \<le> float_eps * \<bar>C * ratio\<bar>"
  shows "\<bar>wr - C * (512 / H)\<bar> \<le> 3 * float_eps * (C * (512 / H))"
proof -
  have e: "0 < float_eps" "float_eps < 1 / 2 ^ 12" by (rule float_eps_bounds)+
  define x where "x = C * (512 / H)"
  have x: "0 \<le> x" using H C by (simp add: x_def)
  have "C * ratio - x = C * (ratio - 512 / H)"
    by (simp add: x_def algebra_simps)
  then have "\<bar>C * ratio - x\<bar> = C * \<bar>ratio - 512 / H\<bar>"
    using C by (simp add: abs_mult)
  also have "\<dots> \<le> C * (float_eps * (512 / H))"
    using r C by (intro mult_left_mono) simp_all
  also have "\<dots> = float_eps * x" by (simp add: x_def)
  finally have a: "\<bar>C * ratio - x\<bar> \<le> float_eps * x" .
  have "float_eps * x \<le> 1 * x" using e x by (intro mult_right_mono) simp_all
  then have b: "\<bar>C * ratio\<bar> \<le> 2 * x" using a by linarith
  have "float_eps * \<bar>C * ratio\<bar> \<le> float_eps * (2 * x)"
    using b e by (intro mult_left_mono) simp_all
  then have c: "\<bar>wr - C * ratio\<bar> \<le> 2 * float_eps * x" using m by simp
  have "\<bar>wr - x\<bar> \<le> 3 * float_eps * x" using a c by linarith
  then show ?thesis by (simp add: x_def)
qed

lemma equalize_stage:
  assumes "\<And>g. shape (equalizeHist W g) = shape g"
    and "(if eq then cv_equalizeHist W (Some img) else Inr (Some img)) = Inr r"
  shows "\<exists>img1. r = Some img1 \<and> img_rows img1 = img_rows img \<and> img_cols img1 = img_cols img"
  using assms
  by (cases img) (auto simp add: cv_equalizeHist_def img_rows_def img_cols_def split: if_splits)

lemma load_image_resize_Some:
  assumes "load_image W path gs eq True = Inr (Some out)"
  shows "\<exists>img1. (if eq then cv_equalizeHist W (imread W path gs) else Inr (imread W path gs))
                  = Inr (Some img1)
           \<and> 0 < img_rows img1 \<and> 0 < img_cols img1
           \<and> 0 < fdiv W (real STD_RES) (real (img_rows img1))
           \<and> 0 < cvRound (fmul W (real (img_cols img1)) (fdiv W (real STD_RES) (real (img_rows img1))))
           \<and> 0 < cvRound (fmul W (real (img_rows img1)) (fdiv W (real STD_RES) (real (img_rows img1))))
           \<and> out = inter_area W img1
                 (nat (cvRound (fmul W (real (img_cols img1)) (fdiv W (real STD_RES) (real (img_rows img1))))))
                 (nat (cvRound (fmul W (real (img_rows img1)) (fdiv W (real STD_RES) (real (img_rows img1))))))"
  using assms
  by (auto simp add: load_image_def cv_resize_by_def cv_resize_to_def Let_def
      split: sum.splits option.splits if_splits)

lemma shape_nearest: "0 < h \<Longrightarrow> shape (nearest a w h) = (h, w)"
  by (simp add: nearest_def shape_def upt_conv_Cons del: upt_Suc)

lemma example_inter_area:
  "0 < h \<Longrightarrow> img_rows (inter_area example_world src w h) = h
     \<and> img_cols (inter_area example_world src w h) = w"
  by (cases src) (simp_all add: example_world_def img_rows_def img_cols_def shape_nearest)

text \<open>
  C8: for every image that \<open>load_image\<close> returns with \<open>resize\<close> set, the height is the
  standard resolution 512, and the width is the decoded width scaled by the same factor
  \<open>512 / height\<close>, rounded to a whole number of pixels: it differs from the exact product
  by at most half a pixel and the rounding error of the two float operations. The
  library is assumed to do what it documents: \<open>cv.resize\<close> returns an image of the size
  it computed, \<open>cv.equalizeHist\<close> keeps the shape, and the float division and
  multiplications that are carried out are correctly rounded.
\<close>

theorem load_image_resize_height:
  assumes dec: "imread W path gs = Some img"
    and eqs: "\<And>g. shape (equalizeHist W g) = shape g"
    and area: "\<And>src w h. 0 < w \<Longrightarrow> 0 < h \<Longrightarrow>
                 img_rows (inter_area W src w h) = h \<and> img_cols (inter_area W src w h) = w"
    and fd: "\<bar>fdiv W (real STD_RES) (real (img_rows img)) - real STD_RES / real (img_rows img)\<bar>
               \<le> float_eps * (real STD_RES / real (img_rows img))"
    and fmh: "\<bar>fmul W (real (img_rows img)) (fdiv W (real STD_RES) (real (img_rows img)))
                - real (img_rows img) * fdiv W (real STD_RES) (real (img_rows img))\<bar>
               \<le> float_eps
                    * \<bar>real (img_rows img) * fdiv W (real STD_RES) (real (img_rows img))\<bar>"
    and fmw: "\<bar>fmul W (real (img_cols img)) (fdiv W (real STD_RES) (real (img_rows img)))
                - real (img_cols img) * fdiv W (real STD_RES) (real (img_rows img))\<bar>
               \<le> float_eps
                    * \<bar>real (img_cols img) * fdiv W (real STD_RES) (real (img_rows img))\<bar>"
    and ok: "load_image W path gs eq True = Inr (Some out)"
  shows "img_rows out = STD_RES
       \<and> \<bar>real (img_cols out) - real (img_cols img) * (real STD_RES / real (img_rows img))\<bar>
           \<le> 1 / 2 + 3 * float_eps * (real (img_cols img) * (real STD_RES / real (img_rows img)))"
proof -
  define ratio where "ratio = fdiv W (real STD_RES) (real (img_rows img))"
  from load_image_resize_Some [OF ok] obtain img1 where
    st: "(if eq then cv_equalizeHist W (imread W path gs) else Inr (imread W path gs))
           = Inr (Some img1)"
    and pos: "0 < img_rows img1" "0 < img_cols img1"
    and wpos: "0 < cvRound (fmul W (real (img_cols img1)) (fdiv W (real STD_RES) (real (img_rows img1))))"
    and hpos: "0 < cvRound (fmul W (real (img_rows img1)) (fdiv W (real STD_RES) (real (img_rows img1))))"
    and out: "out = inter_area W img1
                 (nat (cvRound (fmul W (real (img_cols img1)) (fdiv W (real STD_RES) (real (img_rows img1))))))
                 (nat (cvRound (fmul W (real (img_rows img1)) (fdiv W (real STD_RES) (real (img_rows img1))))))"
    by blast
  from equalize_stage [OF eqs st [unfolded dec]]
  have same: "img_rows img1 = img_rows img" "img_cols img1 = img_cols img" by simp_all
  have H: "0 < real (img_rows img)" using pos same by simp
  have r: "\<bar>ratio - 512 / real (img_rows img)\<bar> \<le> float_eps * (512 / real (img_rows img))"
    using fd by (simp add: ratio_def STD_RES_def)
  have mh: "\<bar>fmul W (real (img_rows img)) ratio - real (img_rows img) * ratio\<bar>
              \<le> float_eps * \<bar>real (img_rows img) * ratio\<bar>"
    using fmh by (simp add: ratio_def)
  have mw: "\<bar>fmul W (real (img_cols img)) ratio - real (img_cols img) * ratio\<bar>
              \<le> float_eps * \<bar>real (img_cols img) * ratio\<bar>"
    using fmw by (simp add: ratio_def)
  have "\<bar>fmul W (real (img_rows img)) ratio - of_int 512\<bar> < 1 / 2"
    using scaled_height [OF H r mh] by simp
  then have h512: "cvRound (fmul W (real (img_rows img)) ratio) = 512"
    by (rule cvRound_near)
  have w1: "\<bar>fmul W (real (img_cols img)) ratio - real (img_cols img) * (512 / real (img_rows img))\<bar>
              \<le> 3 * float_eps * (real (img_cols img) * (512 / real (img_rows img)))"
    by (rule scaled_width [OF H _ r mw]) simp
  have wp: "0 < cvRound (fmul W (real (img_cols img)) ratio)"
    using wpos same by (simp add: ratio_def)
  have rows: "img_rows out = 512" and cols: "img_cols out = nat (cvRound (fmul W (real (img_cols img)) ratio))"
    using area [of "nat (cvRound (fmul W (real (img_cols img)) ratio))" 512 img1] wp h512 out same
    by (simp_all add: ratio_def)
  have "real (img_cols out) = of_int (cvRound (fmul W (real (img_cols img)) ratio))"
    using cols wp by simp
  then have "\<bar>real (img_cols out) - fmul W (real (img_cols img)) ratio\<bar> \<le> 1 / 2"
    using cvRound_close [of "fmul W (real (img_cols img)) ratio"] by simp
  then have "\<bar>real (img_cols out) - real (img_cols img) * (512 / real (img_rows img))\<bar>
           \<le> 1 / 2 + 3 * float_eps * (real (img_cols img) * (512 / real (img_rows img)))"
    using w1 by linarith
  then show ?thesis using rows by (simp add: STD_RES_def)
qed

theorem load_image_resize_height_witness:
  "imread example_world ''eye.jpeg'' True = Some (Gray example_gray)
   \<and> load_image example_world ''eye.jpeg'' True False True
        = Inr (Some (Gray (nearest example_gray 512 512)))
   \<and> img_rows (Gray (nearest example_gray 512 512)) = 512
   \<and> \<bar>real (img_cols (Gray (nearest example_gray 512 512))) - 4 * (512 / 4)\<bar>
        \<le> 1 / 2 + 3 * float_eps * (4 * (512 / 4))"
proof -
  have dec: "imread example_world ''eye.jpeg'' True = Some (Gray example_gray)"
    by (simp add: example_world_def)
  have eqs: "\<And>g. shape (equalizeHist example_world g) = shape g"
    by (simp add: example_world_def)
  have fd: "\<bar>fdiv example_world (real STD_RES) (real (img_rows (Gray example_gray)))
              - real STD_RES / real (img_rows (Gray example_gray))\<bar>
            \<le> float_eps * (real STD_RES / real (img_rows (Gray example_gray)))"
    by (simp add: example_world_def float_eps_def)
  have fm: "\<bar>fmul example_world (real n)
                (fdiv example_world (real STD_RES) (real (img_rows (Gray example_gray))))
              - real n * fdiv example_world (real STD_RES) (real (img_rows (Gray example_gray)))\<bar>
            \<le> float_eps * \<bar>real n * fdiv example_world (real STD_RES)
                               (real (img_rows (Gray example_gray)))\<bar>" for n
    by (simp add: example_world_def float_eps_def)
  from load_image_resize_height [OF dec eqs example_inter_area fd fm fm example_load]
  show ?thesis
    using dec example_load
    by (simp add: STD_RES_def img_rows_def img_cols_def example_gray_shape)
qed

text \<open>
  The loader does return an image for every decoded image that is at most 512 times as
  tall as it is wide (a much narrower one is scaled to a width that rounds to zero, which
  \<open>cv.resize\<close> refuses).
\<close>

lemma load_image_resize_succeeds:
  assumes dec: "imread W path gs = Some img"
    and gray: "eq \<longrightarrow> (\<exists>g. img = Gray g)"
    and eqs: "\<And>g. shape (equalizeHist W g) = shape g"
    and fd: "\<bar>fdiv W (real STD_RES) (real (img_rows img)) - real STD_RES / real (img_rows img)\<bar>
               \<le> float_eps * (real STD_RES / real (img_rows img))"
    and fmh: "\<bar>fmul W (real (img_rows img)) (fdiv W (real STD_RES) (real (img_rows img)))
                - real (img_rows img) * fdiv W (real STD_RES) (real (img_rows img))\<bar>
               \<le> float_eps
                    * \<bar>real (img_rows img) * fdiv W (real STD_RES) (real (img_rows img))\<bar>"
    and fmw: "\<bar>fmul W (real (img_cols img)) (fdiv W (real STD_RES) (real (img_rows img)))
                - real (img_cols img) * fdiv W (real STD_RES) (real (img_rows img))\<bar>
               \<le> float_eps
                    * \<bar>real (img_cols img) * fdiv W (real STD_RES) (real (img_rows img))\<bar>"
    and rows: "0 < img_rows img" and thin: "img_rows img \<le> STD_RES * img_cols img"
  shows "\<exists>out. load_image W path gs eq True = Inr (Some out)"
proof -
  define ratio where "ratio = fdiv W (real STD_RES) (real (img_rows img))"
  define img1 where "img1 = (if eq then (case img of Gray g \<Rightarrow> Gray (equalizeHist W g) | Colour c \<Rightarrow> img) else img)"
  have st: "(if eq then cv_equalizeHist W (imread W path gs) else Inr (imread W path gs))
             = Inr (Some img1)"
    using gray dec by (auto simp add: img1_def cv_equalizeHist_def)
  have same: "img_rows img1 = img_rows img" "img_cols img1 = img_cols img"
    using eqs by (auto simp add: img1_def img_rows_def img_cols_def split: image.splits)
  have H: "0 < real (img_rows img)" using rows by simp
  have cpos: "0 < img_cols img" using rows thin by (cases "img_cols img") simp_all
  have r: "\<bar>ratio - 512 / real (img_rows img)\<bar> \<le> float_eps * (512 / real (img_rows img))"
    using fd by (simp add: ratio_def STD_RES_def)
  have rp: "0 < ratio" by (rule ratio_pos [OF H r])
  have mh: "\<bar>fmul W (real (img_rows img)) ratio - real (img_rows img) * ratio\<bar>
              \<le> float_eps * \<bar>real (img_rows img) * ratio\<bar>"
    using fmh by (simp add: ratio_def)
  have mw: "\<bar>fmul W (real (img_cols img)) ratio - real (img_cols img) * ratio\<bar>
              \<le> float_eps * \<bar>real (img_cols img) * ratio\<bar>"
    using fmw by (simp add: ratio_def)
  have "\<bar>fmul W (real (img_rows img)) ratio - of_int 512\<bar> < 1 / 2"
    using scaled_height [OF H r mh] by simp
  then have h512: "cvRound (fmul W (real (img_rows img)) ratio) = 512"
    by (rule cvRound_near)
  define x where "x = real (img_cols img) * (512 / real (img_rows img))"
  have "real (img_rows img) \<le> real (STD_RES * img_cols img)"
    using thin by (simp only: of_nat_le_iff)
  then have "real (img_rows img) \<le> 512 * real (img_cols img)"
    by (simp add: STD_RES_def)
  then have x1: "1 \<le> x" using H by (simp add: x_def field_simps)
  have w1: "\<bar>fmul W (real (img_cols img)) ratio - x\<bar> \<le> 3 * float_eps * x"
    unfolding x_def by (rule scaled_width [OF H _ r mw]) simp
  have "3 * float_eps * x \<le> (1 / 4) * x"
    using x1 float_eps_bounds by (intro mult_right_mono) simp_all
  then have "1 / 2 < fmul W (real (img_cols img)) ratio" using w1 x1 by linarith
  then have wp: "0 < cvRound (fmul W (real (img_cols img)) ratio)" by (rule cvRound_pos)
  show ?thesis
    using st same rows cpos rp h512 wp
    by (simp add: load_image_def cv_resize_by_def cv_resize_to_def Let_def ratio_def [symmetric])
qed

end
